theory Spec2Isabelle
  imports Complex_Main "HOL-Library.Multiset"
begin

section \<open>Price tracker: extraction, decision chain, history ledger, check orchestration\<close>

text \<open>
  The repository holds two variants of one application: \<^verbatim>\<open>main.py\<close> (SQLite, a sequential
  check loop) and \<^verbatim>\<open>price_tracker_bot.py\<close> (MongoDB, per-product tasks handed to a pool).
  Both are embedded here. Definitions that exist in both files with the same body
  (\<^verbatim>\<open>scrape_product\<close>, \<^verbatim>\<open>send_notification\<close>) are embedded once; where the bodies differ the
  SQLite variant carries the suffix \<open>_sqlite\<close> and the MongoDB variant keeps the source name.
  \<^verbatim>\<open>THREAD_POOL\<close> is modelled by the list of submitted tasks and the order in which they
  complete; the number of workers is not modelled.

  Prices are Python floats in the source. They are modelled as exact rationals: the value
  of a decimal numeral is exact, rounding, infinities and NaN are outside the model.
  Timestamps are the strings \<^verbatim>\<open>'%Y-%m-%d %H:%M:%S'\<close> of the local wall clock, compared as
  strings by both stores; for four-digit years that order is the order of the clock
  readings in whole seconds, so a timestamp is modelled as a natural number of seconds.
\<close>

type_synonym price = rat

subsection \<open>String operations of the scraper\<close>

text \<open>Python's \<^verbatim>\<open>sub in s\<close> on strings: \<open>sub\<close> occurs in \<open>s\<close> as a contiguous block.\<close>

fun starts_with :: "string \<Rightarrow> string \<Rightarrow> bool" where
  "starts_with [] s = True"
| "starts_with (p # ps) [] = False"
| "starts_with (p # ps) (c # cs) = (p = c \<and> starts_with ps cs)"

fun str_in :: "string \<Rightarrow> string \<Rightarrow> bool" where
  "str_in sub [] = (sub = [])"
| "str_in sub (c # cs) = (starts_with sub (c # cs) \<or> str_in sub cs)"

text \<open>\<^verbatim>\<open>str.strip()\<close> over the ASCII whitespace characters, and \<^verbatim>\<open>.replace(',', '')\<close>.\<close>

definition is_space :: "char \<Rightarrow> bool" where
  "is_space c = (c \<in> set [CHR 0x09, CHR 0x0A, CHR 0x0B, CHR 0x0C, CHR 0x0D,
                            CHR 0x1C, CHR 0x1D, CHR 0x1E, CHR 0x1F, CHR 0x20])"

definition strip :: "string \<Rightarrow> string" where
  "strip s = rev (dropWhile is_space (rev (dropWhile is_space s)))"

definition replace_comma :: "string \<Rightarrow> string" where
  "replace_comma s = filter (\<lambda>c. c \<noteq> CHR '','') s"

text \<open>
  \<^verbatim>\<open>re.search(r'\$?(\d+\.?\d*)', price_text)\<close> and its \<^verbatim>\<open>group(1)\<close>. Every match has its
  group 1 starting at a digit, and the leftmost match starts at the first digit of the text
  or at a dollar sign right before it, so group 1 always starts at the first digit. From
  there the pattern is greedy and everything after \<^verbatim>\<open>\d+\<close> is optional: the longest run of
  digits, then a dot if one follows, then the longest run of digits after the dot.
  \<open>re_search\<close> returns \<open>None\<close> where Python returns no match object. Digits are the ASCII
  digits.
\<close>

definition is_digit :: "char \<Rightarrow> bool" where
  "is_digit c = (c \<in> set ''0123456789'')"

definition match_group :: "string \<Rightarrow> string" where
  "match_group s =
     (let whole = takeWhile is_digit s; rest = dropWhile is_digit s in
      case rest of
        [] \<Rightarrow> whole
      | c # r \<Rightarrow> if c = CHR ''.'' then whole @ [c] @ takeWhile is_digit r else whole)"

fun re_search :: "string \<Rightarrow> string option" where
  "re_search [] = None"
| "re_search (c # cs) = (if is_digit c then Some (match_group (c # cs)) else re_search cs)"

text \<open>
  \<^verbatim>\<open>float(price_match.group(1))\<close> on a numeral of the shape digits, or digits dot digits
  (the digits after the dot may be absent). Any other string is the \<^verbatim>\<open>ValueError\<close> branch,
  \<open>None\<close>.
\<close>

definition digit_val :: "char \<Rightarrow> nat" where
  "digit_val c = of_char c - 48"

definition digits_val :: "string \<Rightarrow> nat" where
  "digits_val ds = foldl (\<lambda>n c. 10 * n + digit_val c) 0 ds"

definition float_of_numeral :: "string \<Rightarrow> price option" where
  "float_of_numeral g =
     (let whole = takeWhile is_digit g; rest = dropWhile is_digit g in
      if whole = [] then None
      else case rest of
        [] \<Rightarrow> Some (of_nat (digits_val whole))
      | c # decimals \<Rightarrow>
          if c = CHR ''.'' \<and> list_all is_digit decimals
          then Some (of_nat (digits_val whole) + of_nat (digits_val decimals) / 10 ^ length decimals)
          else None)"

subsection \<open>\<^verbatim>\<open>scrape_product\<close>\<close>

text \<open>
  The network and the HTML parser are outside the repository. What \<^verbatim>\<open>scrape_product\<close> sees
  of them is one of three things: \<^verbatim>\<open>requests.get\<close> or \<^verbatim>\<open>raise_for_status\<close> raised a
  \<^verbatim>\<open>RequestException\<close> (transport error, timeout, error status), something raised another
  \<^verbatim>\<open>Exception\<close>, or a parsed page came back. A page is the function from a CSS selector to
  the text of the first element it selects (\<^verbatim>\<open>select_one(...)\<close> followed by
  \<^verbatim>\<open>get_text()\<close>), \<open>None\<close> where \<^verbatim>\<open>select_one\<close> returns \<^verbatim>\<open>None\<close>.
\<close>

type_synonym soup = "string \<Rightarrow> string option"

datatype http_result = RequestException | OtherException | Response soup

text \<open>
  The body shared by the three site branches of \<^verbatim>\<open>scrape_product\<close>: both elements found,
  the price text cleaned, the pattern matched, the numeral converted. Falling out of any
  \<^verbatim>\<open>if\<close> reaches \<^verbatim>\<open>return None, None\<close>; a \<^verbatim>\<open>ValueError\<close> of \<^verbatim>\<open>float\<close> reaches it through
  \<^verbatim>\<open>except Exception\<close>. The pair \<^verbatim>\<open>(None, None)\<close> is \<open>None\<close>, a pair \<^verbatim>\<open>(name, price)\<close> is
  \<open>Some (name, price)\<close>.
\<close>

definition extract_fields :: "soup \<Rightarrow> string \<Rightarrow> string \<Rightarrow> (string \<times> price) option" where
  "extract_fields page name_selector price_selector =
     (case page name_selector of
        None \<Rightarrow> None
      | Some name_elem \<Rightarrow>
         (case page price_selector of
            None \<Rightarrow> None
          | Some price_elem \<Rightarrow>
             (let name = strip name_elem;
                  price_text = strip (replace_comma price_elem) in
              case re_search price_text of
                None \<Rightarrow> None
              | Some price_match \<Rightarrow>
                 (case float_of_numeral price_match of
                    None \<Rightarrow> None
                  | Some price \<Rightarrow> Some (name, price)))))"

definition scrape_product :: "(string \<Rightarrow> http_result) \<Rightarrow> string \<Rightarrow> (string \<times> price) option" where
  "scrape_product net url =
     (case net url of
        RequestException \<Rightarrow> None
      | OtherException \<Rightarrow> None
      | Response page \<Rightarrow>
          if str_in ''amazon.in'' url \<or> str_in ''amazon.com'' url then
            extract_fields page ''#productTitle''
              ''.a-price-whole, #corePrice_feature_div .a-offscreen''
          else if str_in ''flipkart.com'' url then
            extract_fields page ''span.B_NuCI'' ''div._30jeq3, div._16Jk6d ._30jeq3''
          else if str_in ''myntra.com'' url then
            extract_fields page ''.pdp-title'' ''.pdp-price .pdp-price-amount''
          else None)"

text \<open>
  The same chain read as a table: the selectors of the first domain that occurs in the URL.
\<close>

definition site_rule :: "string \<Rightarrow> (string \<times> string) option" where
  "site_rule url =
     (if str_in ''amazon.in'' url \<or> str_in ''amazon.com'' url then
        Some (''#productTitle'', ''.a-price-whole, #corePrice_feature_div .a-offscreen'')
      else if str_in ''flipkart.com'' url then
        Some (''span.B_NuCI'', ''div._30jeq3, div._16Jk6d ._30jeq3'')
      else if str_in ''myntra.com'' url then
        Some (''.pdp-title'', ''.pdp-price .pdp-price-amount'')
      else None)"

subsection \<open>Stored data\<close>

text \<open>
  A product row (the \<^verbatim>\<open>products\<close> table of \<^verbatim>\<open>main.py\<close>, the \<^verbatim>\<open>products\<close> collection of
  \<^verbatim>\<open>price_tracker_bot.py\<close>) and a price-history row. Identifiers are natural numbers: the
  \<^verbatim>\<open>AUTOINCREMENT\<close> key of SQLite, and for MongoDB the \<^verbatim>\<open>ObjectId\<close>, which the source only
  ever compares through \<^verbatim>\<open>str\<close>. Both stores hand out a fresh identifier at each insert;
  \<open>next_id\<close> is the next one. The lists are in insertion order.
\<close>

record product =
  p_id :: nat
  p_user :: nat
  p_url :: string
  p_name :: string
  p_low_price :: price
  p_high_price :: price

record observation =
  h_product :: nat
  h_price :: price
  h_timestamp :: nat

text \<open>
  The four message texts of the check, by what they interpolate: the scraped name, the
  current price, and for the two threshold alerts the threshold.
\<close>

datatype message =
    Dropped_to_target string price price
  | Increased_to_high string price price
  | Dropped string price
  | Increased string price

record notification =
  n_title :: string
  n_message :: message
  n_delivered :: bool

record state =
  products :: "product list"
  price_history :: "observation list"
  next_id :: nat
  notifications :: "notification list"

text \<open>
  What a check reads from outside the program: the network, whether
  \<^verbatim>\<open>notification.notify\<close> returns or raises, the wall clock at the moment a row is written,
  whether \<^verbatim>\<open>get_db_client\<close> obtains a connection, and which of several rows with the same
  newest timestamp the store returns first (neither store promises an order among equal
  sort keys). All but the last are indexed by the product being processed; each product is
  processed once in a batch.
\<close>

record env =
  e_net :: "string \<Rightarrow> http_result"
  e_notify_ok :: "nat \<Rightarrow> bool"
  e_clock :: "nat \<Rightarrow> nat"
  e_db_ok :: "nat \<Rightarrow> bool"
  e_list_ok :: bool
  e_tie_break :: "observation list \<Rightarrow> nat"

subsection \<open>Notifier\<close>

text \<open>
  \<^verbatim>\<open>send_notification\<close>: the call to \<^verbatim>\<open>notification.notify\<close> either returns, and the
  notification is logged as sent, or raises, and the exception is caught and logged. Either
  way the function returns normally. Each call leaves one entry.
\<close>

definition send_notification :: "bool \<Rightarrow> string \<Rightarrow> message \<Rightarrow> state \<Rightarrow> state" where
  "send_notification notify_ok title message st =
     st\<lparr>notifications := notifications st @
        [\<lparr>n_title = title, n_message = message, n_delivered = notify_ok\<rparr>]\<rparr>"

subsection \<open>History store\<close>

text \<open>
  The newest row of a product: \<^verbatim>\<open>ORDER BY timestamp DESC LIMIT 1\<close> in \<^verbatim>\<open>main.py\<close>,
  \<^verbatim>\<open>find_one(..., sort=[("timestamp", -1)])\<close> in \<^verbatim>\<open>price_tracker_bot.py\<close>. \<open>latest_rows\<close>
  are the rows of the product that carry its greatest timestamp; the store returns one of
  them, the one \<open>tie_break\<close> points at.
\<close>

definition latest_rows :: "nat \<Rightarrow> observation list \<Rightarrow> observation list" where
  "latest_rows product_id history =
     (let rows = filter (\<lambda>h. h_product h = product_id) history;
          newest = foldr max (map h_timestamp rows) 0
      in filter (\<lambda>h. h_timestamp h = newest) rows)"

definition latest_price :: "(observation list \<Rightarrow> nat) \<Rightarrow> nat \<Rightarrow> observation list \<Rightarrow> price option" where
  "latest_price tie_break product_id history =
     (let rows = latest_rows product_id history in
      if rows = [] then None
      else Some (h_price (rows ! (tie_break rows mod length rows))))"

text \<open>
  \<^verbatim>\<open>add_price_history\<close> of \<^verbatim>\<open>price_tracker_bot.py\<close>. When \<^verbatim>\<open>get_db_client\<close> returns \<^verbatim>\<open>None\<close>
  nothing is written.
\<close>

definition add_price_history :: "bool \<Rightarrow> nat \<Rightarrow> nat \<Rightarrow> price \<Rightarrow> state \<Rightarrow> state" where
  "add_price_history db now product_id price st =
     (if db then
        st\<lparr>price_history := price_history st @
          [\<lparr>h_product = product_id, h_price = price, h_timestamp = now\<rparr>]\<rparr>
      else st)"

subsection \<open>The check of \<^verbatim>\<open>price_tracker_bot.py\<close>\<close>

text \<open>
  The dictionaries \<^verbatim>\<open>get_user_products\<close> builds. \<open>v_latest_price\<close> is \<open>None\<close> where the
  source stores the string \<^verbatim>\<open>"N/A"\<close>.
\<close>

record product_view =
  v_id :: nat
  v_name :: string
  v_url :: string
  v_low_price :: price
  v_high_price :: price
  v_latest_price :: "price option"

definition get_user_products :: "bool \<Rightarrow> (observation list \<Rightarrow> nat) \<Rightarrow> nat \<Rightarrow> state \<Rightarrow> product_view list" where
  "get_user_products db tie_break user_id st =
     (if db then
        map (\<lambda>p. \<lparr>v_id = p_id p, v_name = p_name p, v_url = p_url p,
                   v_low_price = p_low_price p, v_high_price = p_high_price p,
                   v_latest_price = latest_price tie_break (p_id p) (price_history st)\<rparr>)
          (filter (\<lambda>p. p_user p = user_id) (products st))
      else [])"

definition check_single_product :: "env \<Rightarrow> product_view \<Rightarrow> state \<Rightarrow> state" where
  "check_single_product e product st =
     (let product_id = v_id product;
          url = v_url product;
          low_price = v_low_price product;
          high_price = v_high_price product;
          last_price = v_latest_price product
      in case scrape_product (e_net e) url of
           None \<Rightarrow> st
         | Some (current_name, current_price) \<Rightarrow>
             (let st1 =
                (if current_price \<le> low_price then
                   send_notification (e_notify_ok e product_id) ''Price Drop Alert!''
                     (Dropped_to_target current_name current_price low_price) st
                 else if current_price \<ge> high_price \<and> high_price > 0 then
                   send_notification (e_notify_ok e product_id) ''Price Increase Alert!''
                     (Increased_to_high current_name current_price high_price) st
                 else if (case last_price of None \<Rightarrow> False
                          | Some previous \<Rightarrow> current_price < previous) then
                   send_notification (e_notify_ok e product_id) ''Price Drop!''
                     (Dropped current_name current_price) st
                 else if (case last_price of None \<Rightarrow> False
                          | Some previous \<Rightarrow> current_price > previous) then
                   send_notification (e_notify_ok e product_id) ''Price Increase!''
                     (Increased current_name current_price) st
                 else st)
              in add_price_history (e_db_ok e product_id) (e_clock e product_id)
                   product_id current_price st1))"

text \<open>
  \<^verbatim>\<open>check_prices\<close> reads the user's products and calls
  \<^verbatim>\<open>THREAD_POOL.map(check_single_product, products)\<close>. That call submits one task per product
  and returns an iterator that \<^verbatim>\<open>check_prices\<close> never reads: the function returns at once,
  with the store as it was and the tasks submitted. \<open>pending\<close> are the submitted tasks that
  have not completed yet; each carries the dictionary built when it was submitted.
\<close>

record pool_state =
  store :: state
  pending :: "product_view list"

definition check_prices :: "env \<Rightarrow> nat \<Rightarrow> pool_state \<Rightarrow> pool_state" where
  "check_prices e user_id ps =
     (let user_products = get_user_products (e_list_ok e) (e_tie_break e) user_id (store ps) in
      if user_products = [] then ps
      else ps\<lparr>pending := pending ps @ user_products\<rparr>)"

text \<open>
  The pool completes the pending tasks in an order of its own. \<open>complete_task e i\<close> is
  the completion of the pending task at position \<open>i\<close>; a schedule is the list of the
  positions completed one after the other. A task sends at most one notification and then
  writes at most one row, so the order in which rows reach the history is the order of a
  schedule. What a task returns or raises stays in its future, which nobody reads: a raise
  of the insert leaves the store as a missing connection does (\<open>e_db_ok\<close> false).
\<close>

definition complete_task :: "env \<Rightarrow> nat \<Rightarrow> pool_state \<Rightarrow> pool_state" where
  "complete_task e i ps =
     (if i < length (pending ps) then
        \<lparr>store = check_single_product e (pending ps ! i) (store ps),
         pending = take i (pending ps) @ drop (Suc i) (pending ps)\<rparr>
      else ps)"


subsection \<open>The check of \<^verbatim>\<open>main.py\<close>\<close>

text \<open>
  The body of the \<^verbatim>\<open>for\<close> loop of \<^verbatim>\<open>check_prices\<close>, for one fetched row whose thresholds
  are numbers.
\<close>

definition check_row_sqlite :: "env \<Rightarrow> product \<Rightarrow> state \<Rightarrow> state" where
  "check_row_sqlite e row st =
     (let product_id = p_id row;
          url = p_url row;
          low_price = p_low_price row;
          high_price = p_high_price row
      in case scrape_product (e_net e) url of
           None \<Rightarrow> st
         | Some (current_name, current_price) \<Rightarrow>
             (let last_price = latest_price (e_tie_break e) product_id (price_history st);
                  st1 =
                   (if current_price \<le> low_price then
                      send_notification (e_notify_ok e product_id) ''Price Drop Alert!''
                        (Dropped_to_target current_name current_price low_price) st
                    else if current_price \<ge> high_price \<and> high_price > 0 then
                      send_notification (e_notify_ok e product_id) ''Price Increase Alert!''
                        (Increased_to_high current_name current_price high_price) st
                    else (case last_price of
                            None \<Rightarrow> st
                          | Some previous \<Rightarrow>
                              if current_price < previous then
                                send_notification (e_notify_ok e product_id) ''Price Drop!''
                                  (Dropped current_name current_price) st
                              else if current_price > previous then
                                send_notification (e_notify_ok e product_id) ''Price Increase!''
                                  (Increased current_name current_price) st
                              else st))
              in st1\<lparr>price_history := price_history st1 @
                   [\<lparr>h_product = product_id, h_price = current_price,
                     h_timestamp = e_clock e product_id\<rparr>]\<rparr>))"

text \<open>
  The columns \<^verbatim>\<open>low_price REAL\<close> and \<^verbatim>\<open>high_price REAL\<close> may hold \<^verbatim>\<open>NULL\<close>: a threshold
  entered as \<^verbatim>\<open>nan\<close> passes the test \<^verbatim>\<open>low_price <= 0\<close> of \<^verbatim>\<open>App.add_product\<close> and SQLite
  stores a NaN as \<^verbatim>\<open>NULL\<close>. The record \<open>product\<close> carries thresholds that are numbers,
  and the parameter \<open>py_float\<close> of \<open>add_product_sqlite\<close> stands for entries that denote
  numbers; \<open>null_columns\<close> says for which stored products the column holds \<^verbatim>\<open>NULL\<close>
  instead, and the row is then fetched with \<^verbatim>\<open>None\<close> in that place.
\<close>

record null_columns =
  low_is_null :: "nat \<Rightarrow> bool"
  high_is_null :: "nat \<Rightarrow> bool"

datatype py_error = TypeError

text \<open>
  The loop body for any fetched row. After a successful scrape the first comparison is
  \<^verbatim>\<open>current_price <= low_price\<close>, which raises \<^verbatim>\<open>TypeError\<close> on \<^verbatim>\<open>None\<close>; when it is false
  the next is \<^verbatim>\<open>current_price >= high_price\<close>, which raises on \<^verbatim>\<open>None\<close> too. Both come
  before any notification and before the \<^verbatim>\<open>INSERT\<close>. Where no comparison meets \<^verbatim>\<open>None\<close>
  the body is \<open>check_row_sqlite\<close>.
\<close>

definition loop_body_sqlite :: "env \<Rightarrow> null_columns \<Rightarrow> product \<Rightarrow> state \<Rightarrow> py_error + state" where
  "loop_body_sqlite e nulls row st =
     (case scrape_product (e_net e) (p_url row) of
        None \<Rightarrow> Inr st
      | Some (current_name, current_price) \<Rightarrow>
          if low_is_null nulls (p_id row) then Inl TypeError
          else if current_price \<le> p_low_price row then Inr (check_row_sqlite e row st)
          else if high_is_null nulls (p_id row) then Inl TypeError
          else Inr (check_row_sqlite e row st))"

text \<open>
  The \<^verbatim>\<open>for\<close> loop has no \<^verbatim>\<open>try\<close>: an exception of the body leaves the loop and the
  function. The result is the exception, if any, and the state reached inside the
  transaction.
\<close>

fun for_loop_sqlite :: "env \<Rightarrow> null_columns \<Rightarrow> product list \<Rightarrow> state \<Rightarrow> py_error option \<times> state" where
  "for_loop_sqlite e nulls [] st = (None, st)"
| "for_loop_sqlite e nulls (row # rows) st =
     (case loop_body_sqlite e nulls row st of
        Inl err \<Rightarrow> (Some err, st)
      | Inr st1 \<Rightarrow> for_loop_sqlite e nulls rows st1)"

text \<open>
  \<^verbatim>\<open>check_prices\<close> of \<^verbatim>\<open>main.py\<close>: the rows of the user are fetched, the loop runs, and
  \<^verbatim>\<open>conn.commit()\<close> follows the loop. When the loop raises, the commit is never reached and
  the rows inserted during the batch are lost with the connection; the notifications
  already sent stay sent.
\<close>

definition check_prices_sqlite :: "env \<Rightarrow> null_columns \<Rightarrow> nat \<Rightarrow> state \<Rightarrow> py_error option \<times> state" where
  "check_prices_sqlite e nulls user_id st =
     (case for_loop_sqlite e nulls (filter (\<lambda>p. p_user p = user_id) (products st)) st of
        (None, st1) \<Rightarrow> (None, st1)
      | (Some err, st1) \<Rightarrow> (Some err, st1\<lparr>price_history := price_history st\<rparr>))"

text \<open>Whether the loop body raises for a row; it does not depend on the state.\<close>

definition raises_TypeError :: "env \<Rightarrow> null_columns \<Rightarrow> product \<Rightarrow> bool" where
  "raises_TypeError e nulls row =
     (case scrape_product (e_net e) (p_url row) of
        None \<Rightarrow> False
      | Some (current_name, current_price) \<Rightarrow>
          low_is_null nulls (p_id row) \<or>
          (\<not> current_price \<le> p_low_price row \<and> high_is_null nulls (p_id row)))"

subsection \<open>Adding a product\<close>

text \<open>
  The two \<^verbatim>\<open>float(...)\<close> conversions of the entry fields and the test \<^verbatim>\<open>low_price <= 0\<close>,
  all inside one \<^verbatim>\<open>try\<close>; \<open>None\<close> is the \<^verbatim>\<open>ValueError\<close> branch. Python's \<^verbatim>\<open>float\<close> on
  arbitrary user text is the parameter \<open>py_float\<close>.
\<close>

definition parse_prices :: "(string \<Rightarrow> price option) \<Rightarrow> string \<Rightarrow> string \<Rightarrow> (price \<times> price) option" where
  "parse_prices py_float low_price_str high_price_str =
     (case py_float low_price_str of
        None \<Rightarrow> None
      | Some low_price \<Rightarrow>
         (case (if high_price_str \<noteq> [] then py_float high_price_str else Some 0) of
            None \<Rightarrow> None
          | Some high_price \<Rightarrow>
              if low_price \<le> 0 then None else Some (low_price, high_price)))"

datatype dialog = ShowError string | ShowInfo string

text \<open>
  \<^verbatim>\<open>App.add_product\<close> of \<^verbatim>\<open>main.py\<close>. The table has \<^verbatim>\<open>url TEXT UNIQUE NOT NULL\<close>, so the
  first \<^verbatim>\<open>INSERT\<close> raises \<^verbatim>\<open>IntegrityError\<close> when any row already has the URL; nothing was
  committed then. Otherwise both rows are written and committed together.
\<close>

definition add_product_sqlite ::
  "(string \<Rightarrow> price option) \<Rightarrow> (string \<Rightarrow> http_result) \<Rightarrow> nat \<Rightarrow> nat \<Rightarrow>
   string \<Rightarrow> string \<Rightarrow> string \<Rightarrow> state \<Rightarrow> dialog \<times> state" where
  "add_product_sqlite py_float net now user_id url_entry low_entry high_entry st =
     (let url = strip url_entry;
          low_price_str = strip low_entry;
          high_price_str = strip high_entry
      in if url = [] \<or> low_price_str = [] then
           (ShowError ''Please enter a URL and at least a low price.'', st)
         else case parse_prices py_float low_price_str high_price_str of
           None \<Rightarrow> (ShowError ''Prices must be valid numbers.'', st)
         | Some (low_price, high_price) \<Rightarrow>
            (case scrape_product net url of
               None \<Rightarrow>
                 (ShowError ''Failed to scrape product details. Check the URL or try again.'', st)
             | Some (name, price) \<Rightarrow>
                 if name = [] then
                   (ShowError ''Failed to scrape product details. Check the URL or try again.'', st)
                 else if list_ex (\<lambda>p. p_url p = url) (products st) then
                   (ShowError ''This URL is already being tracked.'', st)
                 else
                   (let product_id = next_id st in
                    (ShowInfo (''Added '' @ take 30 name @ ''... to tracking list.''),
                     st\<lparr>products := products st @
                          [\<lparr>p_id = product_id, p_user = user_id, p_url = url, p_name = name,
                            p_low_price = low_price, p_high_price = high_price\<rparr>],
                        price_history := price_history st @
                          [\<lparr>h_product = product_id, h_price = price, h_timestamp = now\<rparr>],
                        next_id := Suc product_id\<rparr>))))"

text \<open>
  \<^verbatim>\<open>add_product_to_db\<close> of \<^verbatim>\<open>price_tracker_bot.py\<close>: \<^verbatim>\<open>None\<close> without a connection, \<^verbatim>\<open>None\<close>
  when the user already has a product with the URL, the new identifier otherwise.
\<close>

definition add_product_to_db ::
  "bool \<Rightarrow> nat \<Rightarrow> string \<Rightarrow> string \<Rightarrow> price \<Rightarrow> price \<Rightarrow> state \<Rightarrow> nat option \<times> state" where
  "add_product_to_db db user_id url name low_price high_price st =
     (if db then
        (if list_ex (\<lambda>p. p_user p = user_id \<and> p_url p = url) (products st) then (None, st)
         else
           (Some (next_id st),
            st\<lparr>products := products st @
                 [\<lparr>p_id = next_id st, p_user = user_id, p_url = url, p_name = name,
                   p_low_price = low_price, p_high_price = high_price\<rparr>],
               next_id := Suc (next_id st)\<rparr>))
      else (None, st))"

text \<open>
  \<^verbatim>\<open>App.add_product\<close> of \<^verbatim>\<open>price_tracker_bot.py\<close>. The product and its first history row are
  written by two calls, each opening its own connection: \<open>db_products\<close> and \<open>db_history\<close>
  say whether each obtained one.
\<close>

definition add_product ::
  "(string \<Rightarrow> price option) \<Rightarrow> (string \<Rightarrow> http_result) \<Rightarrow> bool \<Rightarrow> bool \<Rightarrow> nat \<Rightarrow> nat \<Rightarrow>
   string \<Rightarrow> string \<Rightarrow> string \<Rightarrow> state \<Rightarrow> dialog \<times> state" where
  "add_product py_float net db_products db_history now user_id url_entry low_entry high_entry st =
     (let url = strip url_entry;
          low_price_str = strip low_entry;
          high_price_str = strip high_entry
      in if url = [] \<or> low_price_str = [] then
           (ShowError ''Please enter a URL and at least a low price.'', st)
         else case parse_prices py_float low_price_str high_price_str of
           None \<Rightarrow> (ShowError ''Prices must be valid numbers.'', st)
         | Some (low_price, high_price) \<Rightarrow>
            (case scrape_product net url of
               None \<Rightarrow>
                 (ShowError ''Failed to scrape product details. Check the URL or try again.'', st)
             | Some (name, price) \<Rightarrow>
                 if name = [] then
                   (ShowError ''Failed to scrape product details. Check the URL or try again.'', st)
                 else
                   (case add_product_to_db db_products user_id url name low_price high_price st of
                      (Some product_id, st1) \<Rightarrow>
                        (ShowInfo (''Added '' @ take 30 name @ ''... to tracking list.''),
                         add_price_history db_history now product_id price st1)
                    | (None, st1) \<Rightarrow>
                        (ShowError ''This URL is already being tracked.'', st1))))"

subsection \<open>The decision policy as the specification words it\<close>

text \<open>
  The specification's \<^verbatim>\<open>decide\<close>: four rules in priority order, the first whose condition
  holds gives the event, none gives no event. This definition follows the specification
  (section 4.4), not the source; it is what the two conditional chains above are compared
  with.
\<close>

datatype event = PriceDropAlert | PriceIncreaseAlert | PriceDrop | PriceIncrease

definition rules :: "price \<Rightarrow> price \<Rightarrow> price option \<Rightarrow> price \<Rightarrow> (bool \<times> event) list" where
  "rules low high lastObservedPrice newPrice =
     [(newPrice \<le> low, PriceDropAlert),
      (high > 0 \<and> newPrice \<ge> high, PriceIncreaseAlert),
      ((case lastObservedPrice of None \<Rightarrow> False | Some previous \<Rightarrow> newPrice < previous), PriceDrop),
      ((case lastObservedPrice of None \<Rightarrow> False | Some previous \<Rightarrow> newPrice > previous), PriceIncrease)]"

definition decide :: "price \<Rightarrow> price \<Rightarrow> price option \<Rightarrow> price \<Rightarrow> event option" where
  "decide low high lastObservedPrice newPrice =
     map_option snd (find fst (rules low high lastObservedPrice newPrice))"

text \<open>The notification the source sends for each event.\<close>

fun notice :: "event \<Rightarrow> bool \<Rightarrow> string \<Rightarrow> price \<Rightarrow> price \<Rightarrow> price \<Rightarrow> notification" where
  "notice PriceDropAlert ok name newPrice low high =
     \<lparr>n_title = ''Price Drop Alert!'', n_message = Dropped_to_target name newPrice low,
      n_delivered = ok\<rparr>"
| "notice PriceIncreaseAlert ok name newPrice low high =
     \<lparr>n_title = ''Price Increase Alert!'', n_message = Increased_to_high name newPrice high,
      n_delivered = ok\<rparr>"
| "notice PriceDrop ok name newPrice low high =
     \<lparr>n_title = ''Price Drop!'', n_message = Dropped name newPrice, n_delivered = ok\<rparr>"
| "notice PriceIncrease ok name newPrice low high =
     \<lparr>n_title = ''Price Increase!'', n_message = Increased name newPrice, n_delivered = ok\<rparr>"

definition emitted :: "event option \<Rightarrow> bool \<Rightarrow> string \<Rightarrow> price \<Rightarrow> price \<Rightarrow> price \<Rightarrow> notification list" where
  "emitted ev ok name newPrice low high =
     (case ev of None \<Rightarrow> [] | Some k \<Rightarrow> [notice k ok name newPrice low high])"

subsection \<open>Identifiers in use\<close>

text \<open>
  Both stores hand out identifiers that were never used before, so in every state the
  program can reach each product row and each history row carries an identifier below
  \<open>next_id\<close>.
\<close>

definition ids_allocated :: "state \<Rightarrow> bool" where
  "ids_allocated st =
     (list_all (\<lambda>p. p_id p < next_id st) (products st) \<and>
      list_all (\<lambda>h. h_product h < next_id st) (price_history st))"

definition empty_state :: state where
  "empty_state = \<lparr>products = [], price_history = [], next_id = 0, notifications = []\<rparr>"

subsection \<open>What one product contributes to a batch\<close>

definition scrape_ok :: "env \<Rightarrow> string \<Rightarrow> bool" where
  "scrape_ok e url = (scrape_product (e_net e) url \<noteq> None)"

text \<open>The history row a product's check writes when its extraction succeeds.\<close>

definition written :: "env \<Rightarrow> nat \<Rightarrow> string \<Rightarrow> observation list" where
  "written e product_id url =
     (case scrape_product (e_net e) url of
        None \<Rightarrow> []
      | Some (current_name, current_price) \<Rightarrow>
          [\<lparr>h_product = product_id, h_price = current_price,
            h_timestamp = e_clock e product_id\<rparr>])"


subsection \<open>Concrete inputs\<close>

text \<open>A page of a free item, as an Amazon URL would serve it.\<close>

definition free_item_page :: soup where
  "free_item_page = [''#productTitle'' \<mapsto> '' Free sample '',
     ''.a-price-whole, #corePrice_feature_div .a-offscreen'' \<mapsto> ''0'']"

definition free_item_net :: "string \<Rightarrow> http_result" where
  "free_item_net url = Response free_item_page"

text \<open>
  A shop whose product pages show a phone at 1,299.50, except that any URL containing
  \<^verbatim>\<open>gone\<close> cannot be fetched.
\<close>

definition shop_page :: soup where
  "shop_page = [''#productTitle'' \<mapsto> '' Phone X '',
     ''.a-price-whole, #corePrice_feature_div .a-offscreen'' \<mapsto> ''1,299.50'']"

definition shop_net :: "string \<Rightarrow> http_result" where
  "shop_net url = (if str_in ''gone'' url then RequestException else Response shop_page)"

text \<open>A shop whose product pages show no price.\<close>

definition unpriced_page :: soup where
  "unpriced_page = [''#productTitle'' \<mapsto> ''Phone X'',
     ''.a-price-whole, #corePrice_feature_div .a-offscreen'' \<mapsto> ''Currently unavailable'']"

definition unpriced_net :: "string \<Rightarrow> http_result" where
  "unpriced_net url = Response unpriced_page"

text \<open>A store that returns the first inserted of several rows with equal timestamps.\<close>

definition first_inserted :: "observation list \<Rightarrow> nat" where
  "first_inserted rows = 0"

text \<open>
  An environment in which the desktop notifier always raises, every connection is
  obtained, and the clock reads a different second for each product.
\<close>

definition shop_env :: env where
  "shop_env = \<lparr>e_net = shop_net, e_notify_ok = (\<lambda>product_id. False),
     e_clock = (\<lambda>product_id. 100 + product_id), e_db_ok = (\<lambda>product_id. True),
     e_list_ok = True, e_tie_break = first_inserted\<rparr>"

definition phone :: product where
  "phone = \<lparr>p_id = 0, p_user = 1, p_url = ''https://www.amazon.in/dp/phone'',
     p_name = ''Phone X'', p_low_price = 1000, p_high_price = 0\<rparr>"

definition gone :: product where
  "gone = \<lparr>p_id = 1, p_user = 1, p_url = ''https://www.amazon.in/dp/gone'',
     p_name = ''Lamp'', p_low_price = 10, p_high_price = 0\<rparr>"

definition cover :: product where
  "cover = \<lparr>p_id = 2, p_user = 1, p_url = ''https://www.amazon.com/dp/cover'',
     p_name = ''Cover'', p_low_price = 1500, p_high_price = 0\<rparr>"

definition shop_state :: state where
  "shop_state = \<lparr>products = [phone, gone, cover],
     price_history = [\<lparr>h_product = 0, h_price = 1400, h_timestamp = 50\<rparr>],
     next_id = 3, notifications = []\<rparr>"

definition phone_view :: product_view where
  "phone_view = \<lparr>v_id = 0, v_name = ''Phone X'', v_url = ''https://www.amazon.in/dp/phone'',
     v_low_price = 1000, v_high_price = 0, v_latest_price = Some 1400\<rparr>"


definition cover_view :: product_view where
  "cover_view = \<lparr>v_id = 2, v_name = ''Cover'', v_url = ''https://www.amazon.com/dp/cover'',
     v_low_price = 1500, v_high_price = 0, v_latest_price = None\<rparr>"









text \<open>
  \<^verbatim>\<open>App.add_product\<close> of \<^verbatim>\<open>price_tracker_bot.py\<close> on an empty store, where the connection
  for the product insert is obtained and the one for the history insert is not.
\<close>

definition lost_connection_state :: state where
  "lost_connection_state =
     snd (add_product float_of_numeral shop_net True False 100 1
            ''https://www.amazon.in/dp/phone'' ''1000'' [] empty_state)"

text \<open>User 1 adds the phone to an empty store, in each variant, with every connection obtained.\<close>

definition phone_added_sqlite :: "dialog \<times> state" where
  "phone_added_sqlite =
     add_product_sqlite float_of_numeral shop_net 100 1
       '' https://www.amazon.in/dp/phone '' ''1000'' [] empty_state"

definition phone_added :: "dialog \<times> state" where
  "phone_added =
     add_product float_of_numeral shop_net True True 100 1
       '' https://www.amazon.in/dp/phone '' ''1000'' [] empty_state"

text \<open>A store in which user 1 tracks the phone.\<close>

definition one_user_state :: state where
  "one_user_state = \<lparr>products = [phone], price_history = [], next_id = 1, notifications = []\<rparr>"

section \<open>Properties\<close>

subsection \<open>The price pattern and the numeral it yields\<close>

lemma float_of_numeral_nonneg: "float_of_numeral g = Some p \<Longrightarrow> 0 \<le> p"
  by (auto simp: float_of_numeral_def Let_def split: if_splits list.splits)

lemma extract_fields_nonneg: "extract_fields page ns ps = Some (name, p) \<Longrightarrow> 0 \<le> p"
  by (auto simp: extract_fields_def Let_def float_of_numeral_nonneg split: option.splits)

lemma scrape_product_rule:
  "scrape_product net url =
     (case net url of
        Response page \<Rightarrow>
          (case site_rule url of None \<Rightarrow> None | Some (ns, ps) \<Rightarrow> extract_fields page ns ps)
      | _ \<Rightarrow> None)"
  by (simp add: scrape_product_def site_rule_def split: http_result.splits)

lemma re_search_None: "re_search t = None \<longleftrightarrow> \<not> list_ex is_digit t"
  by (induction t) auto

lemma not_digit_dot: "\<not> is_digit CHR ''.''"
  by (simp add: is_digit_def)

lemma takeWhile_digits_dot:
  "takeWhile is_digit (takeWhile is_digit s @ CHR ''.'' # r) = takeWhile is_digit s"
proof -
  have "\<And>x. x \<in> set (takeWhile is_digit s) \<Longrightarrow> is_digit x"
    by (auto dest: set_takeWhileD)
  then show ?thesis
    by (simp add: takeWhile_append2 not_digit_dot)
qed

lemma dropWhile_digits_dot:
  "dropWhile is_digit (takeWhile is_digit s @ CHR ''.'' # r) = CHR ''.'' # r"
proof -
  have "\<And>x. x \<in> set (takeWhile is_digit s) \<Longrightarrow> is_digit x"
    by (auto dest: set_takeWhileD)
  then show ?thesis
    by (simp add: dropWhile_append2 not_digit_dot)
qed

lemma dropWhile_takeWhile_digits: "dropWhile is_digit (takeWhile is_digit s) = []"
  by (simp add: dropWhile_eq_Nil_conv) (auto dest: set_takeWhileD)

text \<open>
  The \<^verbatim>\<open>ValueError\<close> branch is dead: whatever the pattern captures is a numeral that
  \<^verbatim>\<open>float\<close> accepts.
\<close>

lemma float_of_match_group:
  assumes "takeWhile is_digit s \<noteq> []"
  shows "\<exists>p. float_of_numeral (match_group s) = Some p"
proof (cases "dropWhile is_digit s")
  case Nil
  have "match_group s = takeWhile is_digit s"
    unfolding match_group_def Nil by simp
  with assms show ?thesis
    by (simp add: float_of_numeral_def dropWhile_takeWhile_digits)
next
  case (Cons d r)
  show ?thesis
  proof (cases "d = CHR ''.''")
    case True
    have digits: "list_all is_digit (takeWhile is_digit r)"
      by (auto simp: list_all_iff dest: set_takeWhileD)
    have "match_group s = takeWhile is_digit s @ CHR ''.'' # takeWhile is_digit r"
      unfolding match_group_def Cons using True by simp
    with assms digits show ?thesis
      by (simp add: float_of_numeral_def takeWhile_digits_dot dropWhile_digits_dot)
  next
    case False
    then have "match_group s = takeWhile is_digit s"
      unfolding match_group_def Cons by simp
    with assms show ?thesis
      by (simp add: float_of_numeral_def dropWhile_takeWhile_digits)
  qed
qed

lemma float_of_re_search:
  "re_search t = Some g \<Longrightarrow> \<exists>p. float_of_numeral g = Some p"
proof (induction t)
  case Nil
  then show ?case by simp
next
  case (Cons c cs)
  show ?case
  proof (cases "is_digit c")
    case True
    then have "takeWhile is_digit (c # cs) \<noteq> []" by simp
    from float_of_match_group [OF this] Cons.prems True show ?thesis by simp
  next
    case False
    with Cons show ?thesis by simp
  qed
qed

lemmas scrape_eval =
  scrape_product_def extract_fields_def strip_def replace_comma_def is_space_def is_digit_def
  match_group_def float_of_numeral_def digits_val_def digit_val_def

lemma scrape_shop_phone:
  "scrape_product shop_net ''https://www.amazon.in/dp/phone'' = Some (''Phone X'', 2599 / 2)"
  by (simp add: scrape_eval shop_net_def shop_page_def)

lemma scrape_shop_cover:
  "scrape_product shop_net ''https://www.amazon.com/dp/cover'' = Some (''Phone X'', 2599 / 2)"
  by (simp add: scrape_eval shop_net_def shop_page_def)


text \<open>
  C6. Claimed: a successful result of \<^verbatim>\<open>scrape_product\<close> always carries a price strictly
  greater than zero. The pattern accepts the numeral \<^verbatim>\<open>0\<close>, and nothing in the function
  tests the converted price: a page whose price element reads \<^verbatim>\<open>0\<close> gives a successful
  result with price zero.
\<close>

theorem scrape_product_zero_price:
  "scrape_product free_item_net ''https://www.amazon.in/dp/B0FREE'' = Some (''Free sample'', 0)"
  by (simp add: scrape_eval free_item_net_def free_item_page_def)

text \<open>
  C6, as amended. For every URL and every network, a successful result of
  \<^verbatim>\<open>scrape_product\<close> carries a price that is not negative (the pattern has no sign); zero
  is possible.
\<close>

theorem scrape_product_price_nonneg:
  "scrape_product net url = Some (name, price) \<Longrightarrow> 0 \<le> price"
  by (auto simp: scrape_product_rule extract_fields_nonneg
      split: http_result.splits option.splits)

theorem scrape_product_price_nonneg_witness:
  "scrape_product shop_net ''https://www.amazon.in/dp/phone'' = Some (''Phone X'', 2599 / 2) \<and>
   (0::rat) \<le> 2599 / 2"
  using scrape_product_price_nonneg [OF scrape_shop_phone] scrape_shop_phone by simp

text \<open>
  C7. \<^verbatim>\<open>scrape_product\<close> is total at its boundary. Exceptions are the branches
  \<open>RequestException\<close> and \<open>OtherException\<close> of the network and the \<open>None\<close> of
  \<open>float_of_numeral\<close>; every one of them, an URL of no known domain, a name or price
  selector that finds no element, and a price text in which the pattern finds no numeral
  give the failure value, and the function gives a value on every input.
\<close>

theorem scrape_product_total:
  "(net url = RequestException \<or> net url = OtherException \<longrightarrow> scrape_product net url = None) \<and>
   (site_rule url = None \<longrightarrow> scrape_product net url = None) \<and>
   (net url = Response page \<and> site_rule url = Some (name_selector, price_selector) \<and>
      (page name_selector = None \<or> page price_selector = None)
      \<longrightarrow> scrape_product net url = None) \<and>
   (net url = Response page \<and> site_rule url = Some (name_selector, price_selector) \<and>
      page price_selector = Some price_elem \<and> \<not> list_ex is_digit price_elem
      \<longrightarrow> scrape_product net url = None) \<and>
   (scrape_product net url = None \<or> (\<exists>name price. scrape_product net url = Some (name, price)))"
proof (intro conjI impI)
  assume "net url = RequestException \<or> net url = OtherException"
  then show "scrape_product net url = None"
    by (auto simp: scrape_product_rule)
next
  assume "site_rule url = None"
  then show "scrape_product net url = None"
    by (simp add: scrape_product_rule split: http_result.splits)
next
  assume "net url = Response page \<and> site_rule url = Some (name_selector, price_selector) \<and>
      (page name_selector = None \<or> page price_selector = None)"
  then show "scrape_product net url = None"
    by (auto simp: scrape_product_rule extract_fields_def split: option.splits)
next
  assume a: "net url = Response page \<and> site_rule url = Some (name_selector, price_selector) \<and>
      page price_selector = Some price_elem \<and> \<not> list_ex is_digit price_elem"
  then have "\<not> list_ex is_digit (strip (replace_comma price_elem))"
    by (auto simp: list_ex_iff strip_def replace_comma_def dest!: set_dropWhileD)
  then have "re_search (strip (replace_comma price_elem)) = None"
    by (simp add: re_search_None)
  with a show "scrape_product net url = None"
    by (simp add: scrape_product_rule extract_fields_def split: option.splits)
next
  show "scrape_product net url = None \<or> (\<exists>name price. scrape_product net url = Some (name, price))"
    by (cases "scrape_product net url") auto
qed

theorem scrape_product_total_witness:
  "shop_net ''https://www.amazon.in/dp/gone'' = RequestException \<and>
   scrape_product shop_net ''https://www.amazon.in/dp/gone'' = None \<and>
   site_rule ''https://example.org/item'' = None \<and>
   scrape_product shop_net ''https://example.org/item'' = None \<and>
   site_rule ''https://www.flipkart.com/item'' =
     Some (''span.B_NuCI'', ''div._30jeq3, div._16Jk6d ._30jeq3'') \<and>
   shop_page ''span.B_NuCI'' = None \<and>
   scrape_product shop_net ''https://www.flipkart.com/item'' = None \<and>
   \<not> list_ex is_digit ''Currently unavailable'' \<and>
   scrape_product unpriced_net ''https://www.amazon.in/dp/phone'' = None"
  using scrape_product_total [of shop_net "''https://www.amazon.in/dp/gone''"]
    scrape_product_total [of shop_net "''https://example.org/item''"]
    scrape_product_total [of shop_net "''https://www.flipkart.com/item''" shop_page
      "''span.B_NuCI''" "''div._30jeq3, div._16Jk6d ._30jeq3''"]
    scrape_product_total [of unpriced_net "''https://www.amazon.in/dp/phone''" unpriced_page
      "''#productTitle''" "''.a-price-whole, #corePrice_feature_div .a-offscreen''"
      "''Currently unavailable''"]
  by (simp add: shop_net_def site_rule_def shop_page_def unpriced_net_def unpriced_page_def
      is_digit_def)

subsection \<open>One product's check\<close>

lemma notifications_add_price_history:
  "notifications (add_price_history db now pid price st) = notifications st"
  by (simp add: add_price_history_def)

lemma price_history_send_notification:
  "price_history (send_notification ok title msg st) = price_history st"
  by (simp add: send_notification_def)

lemma notifications_send_notification:
  "notifications (send_notification ok title msg st) =
     notifications st @ [\<lparr>n_title = title, n_message = msg, n_delivered = ok\<rparr>]"
  by (simp add: send_notification_def)

lemma price_history_add_price_history:
  "price_history (add_price_history db now pid price st) =
     price_history st @
       (if db then [\<lparr>h_product = pid, h_price = price, h_timestamp = now\<rparr>] else [])"
  by (simp add: add_price_history_def)

lemmas effects =
  notifications_add_price_history price_history_send_notification
  notifications_send_notification

lemma check_single_product_notifications:
  "notifications (check_single_product e v st) =
     notifications st @
       (case scrape_product (e_net e) (v_url v) of
          None \<Rightarrow> []
        | Some (name, new) \<Rightarrow>
            emitted (decide (v_low_price v) (v_high_price v) (v_latest_price v) new)
              (e_notify_ok e (v_id v)) name new (v_low_price v) (v_high_price v))"
  by (simp add: check_single_product_def Let_def decide_def rules_def emitted_def effects
      split: option.splits prod.splits)

lemma check_row_sqlite_notifications:
  "notifications (check_row_sqlite e row st) =
     notifications st @
       (case scrape_product (e_net e) (p_url row) of
          None \<Rightarrow> []
        | Some (name, new) \<Rightarrow>
            emitted (decide (p_low_price row) (p_high_price row)
                       (latest_price (e_tie_break e) (p_id row) (price_history st)) new)
              (e_notify_ok e (p_id row)) name new (p_low_price row) (p_high_price row))"
  by (simp add: check_row_sqlite_def Let_def decide_def rules_def emitted_def effects
      split: option.splits prod.splits)

lemma length_emitted: "length (emitted ev ok name new low high) \<le> 1"
  by (simp add: emitted_def split: option.splits)

lemma check_single_product_history:
  "price_history (check_single_product e v st) =
     price_history st @
       (case scrape_product (e_net e) (v_url v) of
          None \<Rightarrow> []
        | Some (name, new) \<Rightarrow>
            if e_db_ok e (v_id v)
            then [\<lparr>h_product = v_id v, h_price = new, h_timestamp = e_clock e (v_id v)\<rparr>]
            else [])"
  by (simp add: check_single_product_def Let_def price_history_add_price_history effects
      split: option.splits prod.splits)

lemma check_row_sqlite_history:
  "price_history (check_row_sqlite e row st) =
     price_history st @
       (case scrape_product (e_net e) (p_url row) of
          None \<Rightarrow> []
        | Some (name, new) \<Rightarrow>
            [\<lparr>h_product = p_id row, h_price = new, h_timestamp = e_clock e (p_id row)\<rparr>])"
  by (simp add: check_row_sqlite_def Let_def effects split: option.splits prod.splits)

text \<open>
  C1. In both variants the notifications a product's check sends are exactly those of the
  specification's priority list: (1) new price at or below the low threshold, (2) high
  threshold set and new price at or above it, (3) a previous price exists and the new one
  is lower, (4) a previous price exists and the new one is higher, (5) nothing; the first
  rule that applies decides. So a check sends at most one notification, whatever the
  thresholds, the previous price and the new price are.
\<close>

theorem decision_first_match_wins:
  "notifications (check_single_product e v st) =
     notifications st @
       (case scrape_product (e_net e) (v_url v) of
          None \<Rightarrow> []
        | Some (name, new) \<Rightarrow>
            emitted (decide (v_low_price v) (v_high_price v) (v_latest_price v) new)
              (e_notify_ok e (v_id v)) name new (v_low_price v) (v_high_price v)) \<and>
   notifications (check_row_sqlite e row st) =
     notifications st @
       (case scrape_product (e_net e) (p_url row) of
          None \<Rightarrow> []
        | Some (name, new) \<Rightarrow>
            emitted (decide (p_low_price row) (p_high_price row)
                       (latest_price (e_tie_break e) (p_id row) (price_history st)) new)
              (e_notify_ok e (p_id row)) name new (p_low_price row) (p_high_price row)) \<and>
   length (notifications (check_single_product e v st)) \<le> Suc (length (notifications st)) \<and>
   length (notifications (check_row_sqlite e row st)) \<le> Suc (length (notifications st))"
proof (intro conjI)
  show "length (notifications (check_single_product e v st)) \<le> Suc (length (notifications st))"
    using length_emitted
    by (simp add: check_single_product_notifications split: option.splits prod.splits)
  show "length (notifications (check_row_sqlite e row st)) \<le> Suc (length (notifications st))"
    using length_emitted
    by (simp add: check_row_sqlite_notifications split: option.splits prod.splits)
qed (rule check_single_product_notifications check_row_sqlite_notifications)+

theorem decision_first_match_wins_witness:
  "notifications (check_single_product shop_env phone_view shop_state) =
     [\<lparr>n_title = ''Price Drop!'', n_message = Dropped ''Phone X'' (2599 / 2),
       n_delivered = False\<rparr>] \<and>
   notifications (check_row_sqlite shop_env cover shop_state) =
     [\<lparr>n_title = ''Price Drop Alert!'',
       n_message = Dropped_to_target ''Phone X'' (2599 / 2) 1500, n_delivered = False\<rparr>]"
  using decision_first_match_wins [of shop_env phone_view shop_state cover]
    scrape_shop_phone scrape_shop_cover
  by (simp add: shop_env_def phone_view_def cover_def shop_state_def decide_def rules_def
      emitted_def)

text \<open>
  C4. Whenever the new price is at or below the low threshold, the check sends the
  price-drop alert and nothing else, whatever the high threshold is and whether or not a
  previous price exists, in both variants.
\<close>

theorem low_threshold_alert_regardless:
  "(scrape_product (e_net e) (v_url v) = Some (name, new) \<and> new \<le> v_low_price v \<longrightarrow>
      decide (v_low_price v) (v_high_price v) (v_latest_price v) new = Some PriceDropAlert \<and>
      notifications (check_single_product e v st) =
        notifications st @
          [\<lparr>n_title = ''Price Drop Alert!'',
            n_message = Dropped_to_target name new (v_low_price v),
            n_delivered = e_notify_ok e (v_id v)\<rparr>]) \<and>
   (scrape_product (e_net e) (p_url row) = Some (name', new') \<and> new' \<le> p_low_price row \<longrightarrow>
      notifications (check_row_sqlite e row st) =
        notifications st @
          [\<lparr>n_title = ''Price Drop Alert!'',
            n_message = Dropped_to_target name' new' (p_low_price row),
            n_delivered = e_notify_ok e (p_id row)\<rparr>])"
  by (simp add: check_single_product_notifications check_row_sqlite_notifications
      decide_def rules_def emitted_def)

theorem low_threshold_alert_regardless_witness:
  "scrape_product (e_net shop_env) (v_url cover_view) = Some (''Phone X'', 2599 / 2) \<and>
   (2599 / 2 :: rat) \<le> v_low_price cover_view \<and>
   notifications (check_single_product shop_env cover_view shop_state) =
     [\<lparr>n_title = ''Price Drop Alert!'',
       n_message = Dropped_to_target ''Phone X'' (2599 / 2) 1500, n_delivered = False\<rparr>] \<and>
   scrape_product (e_net shop_env) (p_url cover) = Some (''Phone X'', 2599 / 2) \<and>
   (2599 / 2 :: rat) \<le> p_low_price cover \<and>
   notifications (check_row_sqlite shop_env cover shop_state) =
     [\<lparr>n_title = ''Price Drop Alert!'',
       n_message = Dropped_to_target ''Phone X'' (2599 / 2) 1500, n_delivered = False\<rparr>]"
  using low_threshold_alert_regardless [of shop_env cover_view "''Phone X''" "2599 / 2"
      shop_state cover "''Phone X''" "2599 / 2"]
    scrape_shop_cover
  by (simp add: shop_env_def cover_view_def cover_def shop_state_def)

subsection \<open>A batch\<close>





lemma check_single_product_written:
  "price_history (check_single_product e v st) =
     price_history st @ (if e_db_ok e (v_id v) then written e (v_id v) (v_url v) else [])"
  by (simp add: check_single_product_history written_def split: option.splits)


lemma foldl_check_single_product_history:
  "price_history (foldl (\<lambda>s v. check_single_product e v s) st vs) =
     price_history st @
       concat (map (\<lambda>v. if e_db_ok e (v_id v) then written e (v_id v) (v_url v) else []) vs)"
  by (induction vs arbitrary: st) (simp_all add: check_single_product_written)



lemma check_row_sqlite_failed:
  "\<not> scrape_ok e (p_url p) \<Longrightarrow> check_row_sqlite e p s = s"
  by (cases "scrape_product (e_net e) (p_url p)")
    (simp_all add: check_row_sqlite_def scrape_ok_def)



text \<open>The loop of \<^verbatim>\<open>main.py\<close>: when it runs to the commit, and when it raises.\<close>

lemma loop_body_sqlite_raises:
  "raises_TypeError e nulls row \<Longrightarrow> loop_body_sqlite e nulls row st = Inl TypeError"
  by (cases "scrape_product (e_net e) (p_url row)")
    (auto simp: raises_TypeError_def loop_body_sqlite_def)

lemma loop_body_sqlite_runs:
  "\<not> raises_TypeError e nulls row \<Longrightarrow>
     loop_body_sqlite e nulls row st = Inr (check_row_sqlite e row st)"
  by (cases "scrape_product (e_net e) (p_url row)")
    (auto simp: raises_TypeError_def loop_body_sqlite_def check_row_sqlite_def)

lemma for_loop_sqlite_runs:
  "list_all (\<lambda>p. \<not> raises_TypeError e nulls p) rows \<Longrightarrow>
     for_loop_sqlite e nulls rows st =
       (None, foldl (\<lambda>s row. check_row_sqlite e row s) st rows)"
  by (induction rows arbitrary: st) (simp_all add: loop_body_sqlite_runs)

lemma for_loop_sqlite_raises:
  "list_ex (raises_TypeError e nulls) rows \<Longrightarrow>
     fst (for_loop_sqlite e nulls rows st) = Some TypeError"
proof (induction rows arbitrary: st)
  case Nil
  then show ?case by simp
next
  case (Cons row rows)
  show ?case
  proof (cases "raises_TypeError e nulls row")
    case True
    then show ?thesis by (simp add: loop_body_sqlite_raises)
  next
    case False
    with Cons show ?thesis by (simp add: loop_body_sqlite_runs)
  qed
qed

lemma for_loop_sqlite_frame:
  "products (snd (for_loop_sqlite e nulls rows st)) = products st \<and>
   next_id (snd (for_loop_sqlite e nulls rows st)) = next_id st"
proof (induction rows arbitrary: st)
  case Nil
  then show ?case by simp
next
  case (Cons row rows)
  show ?case
  proof (cases "raises_TypeError e nulls row")
    case True
    then show ?thesis by (simp add: loop_body_sqlite_raises)
  next
    case False
    with Cons show ?thesis
      by (simp add: loop_body_sqlite_runs check_row_sqlite_def Let_def send_notification_def
          split: option.splits prod.splits)
  qed
qed

lemma check_prices_sqlite_commits:
  assumes "list_all (\<lambda>p. \<not> raises_TypeError e nulls p)
             (filter (\<lambda>p. p_user p = user_id) (products st))"
  shows "check_prices_sqlite e nulls user_id st =
           (None, foldl (\<lambda>s row. check_row_sqlite e row s) st
                    (filter (\<lambda>p. p_user p = user_id) (products st)))"
  by (simp add: check_prices_sqlite_def for_loop_sqlite_runs [OF assms])


text \<open>The pool: what \<^verbatim>\<open>check_prices\<close> submits, and what the completed tasks have written.\<close>

lemma check_prices_submits:
  "store (check_prices e user_id ps) = store ps \<and>
   pending (check_prices e user_id ps) =
     pending ps @ get_user_products (e_list_ok e) (e_tie_break e) user_id (store ps)"
  by (simp add: check_prices_def Let_def)














subsection \<open>The ledger and its newest row\<close>

lemma foldr_max_below: "\<forall>x\<in>set xs. x \<le> (t::nat) \<Longrightarrow> foldr max xs t = t"
  by (induction xs) (simp_all add: max_def)

lemma latest_rows_newest:
  assumes "h_product r = pid"
      and "\<forall>h\<in>set hs. h_product h = pid \<longrightarrow> h_timestamp h < h_timestamp r"
  shows "latest_rows pid (hs @ [r]) = [r]"
proof -
  let ?rows = "filter (\<lambda>h. h_product h = pid) hs"
  have below: "\<forall>x\<in>set (map h_timestamp ?rows). x \<le> h_timestamp r"
    using assms(2) by (auto simp: less_imp_le)
  have newest: "foldr max (map h_timestamp (?rows @ [r])) 0 = h_timestamp r"
    using foldr_max_below [OF below] by simp
  have older: "filter (\<lambda>h. h_timestamp h = h_timestamp r) ?rows = []"
    using assms(2) by (auto simp: filter_empty_conv)
  show ?thesis
    unfolding latest_rows_def Let_def using assms(1) newest older
    by simp
qed

lemma latest_price_newest:
  assumes "h_product r = pid"
      and "\<forall>h\<in>set hs. h_product h = pid \<longrightarrow> h_timestamp h < h_timestamp r"
  shows "latest_price tb pid (hs @ [r]) = Some (h_price r)"
  by (simp add: latest_price_def latest_rows_newest [OF assms])

lemma latest_price_none:
  "filter (\<lambda>h. h_product h = pid) hs = [] \<Longrightarrow> latest_price tb pid hs = None"
  by (simp add: latest_price_def latest_rows_def)




subsection \<open>Adding a product\<close>

lemma fresh_id_no_history:
  "ids_allocated st \<Longrightarrow> filter (\<lambda>h. h_product h = next_id st) (price_history st) = []"
  by (auto simp: ids_allocated_def list_all_iff filter_empty_conv)

lemma add_product_sqlite_cases:
  assumes "add_product_sqlite py_float net now user_id u l h st = (d, st')"
  shows "(st' = st \<and> (\<exists>m. d = ShowError m)) \<or>
         (\<exists>name price low high.
            scrape_product net (strip u) = Some (name, price) \<and>
            d = ShowInfo (''Added '' @ take 30 name @ ''... to tracking list.'') \<and>
            products st' = products st @
                      [\<lparr>p_id = next_id st, p_user = user_id, p_url = strip u, p_name = name,
                        p_low_price = low, p_high_price = high\<rparr>] \<and>
            price_history st' = price_history st @
                      [\<lparr>h_product = next_id st, h_price = price, h_timestamp = now\<rparr>] \<and>
            next_id st' = Suc (next_id st) \<and> notifications st' = notifications st)"
  using assms
  by (auto simp: add_product_sqlite_def Let_def split: if_splits option.splits prod.splits)

lemma add_product_cases:
  assumes "add_product py_float net db1 db2 now user_id u l h st = (d, st')"
  shows "(st' = st \<and> (\<exists>m. d = ShowError m)) \<or>
         (\<exists>name price low high.
            scrape_product net (strip u) = Some (name, price) \<and>
            d = ShowInfo (''Added '' @ take 30 name @ ''... to tracking list.'') \<and>
            products st' = products st @
                      [\<lparr>p_id = next_id st, p_user = user_id, p_url = strip u, p_name = name,
                        p_low_price = low, p_high_price = high\<rparr>] \<and>
            price_history st' = price_history st @
                      (if db2 then [\<lparr>h_product = next_id st, h_price = price, h_timestamp = now\<rparr>]
                       else []) \<and>
            next_id st' = Suc (next_id st) \<and> notifications st' = notifications st)"
  using assms
  by (auto simp: add_product_def add_product_to_db_def add_price_history_def Let_def
      split: if_splits option.splits prod.splits)

text \<open>
  The identifiers in use stay below \<open>next_id\<close>: in the empty store, and after every
  operation that writes.
\<close>

lemma ids_allocated_empty: "ids_allocated empty_state"
  by (simp add: ids_allocated_def empty_state_def)

lemma ids_allocated_add_product_sqlite:
  assumes "ids_allocated st"
  shows "ids_allocated (snd (add_product_sqlite py_float net now user_id u l h st))"
proof -
  obtain d st' where r: "add_product_sqlite py_float net now user_id u l h st = (d, st')"
    by (cases "add_product_sqlite py_float net now user_id u l h st")
  from add_product_sqlite_cases [OF r] assms have "ids_allocated st'"
    by (auto simp: ids_allocated_def list_all_iff less_Suc_eq)
  with r show ?thesis by simp
qed

lemma ids_allocated_add_product:
  assumes "ids_allocated st"
  shows "ids_allocated (snd (add_product py_float net db1 db2 now user_id u l h st))"
proof -
  obtain d st' where r: "add_product py_float net db1 db2 now user_id u l h st = (d, st')"
    by (cases "add_product py_float net db1 db2 now user_id u l h st")
  from add_product_cases [OF r] assms have "ids_allocated st'"
    by (auto simp: ids_allocated_def list_all_iff less_Suc_eq split: if_splits)
  with r show ?thesis by simp
qed

lemma check_row_sqlite_frame:
  "products (check_row_sqlite e row st) = products st \<and>
   next_id (check_row_sqlite e row st) = next_id st"
  by (simp add: check_row_sqlite_def Let_def send_notification_def
      split: option.splits prod.splits)

lemma check_single_product_frame:
  "products (check_single_product e v st) = products st \<and>
   next_id (check_single_product e v st) = next_id st"
  by (simp add: check_single_product_def Let_def send_notification_def add_price_history_def
      split: option.splits prod.splits)

lemma ids_allocated_check_row_sqlite:
  assumes "ids_allocated st" and "p_id row < next_id st"
  shows "ids_allocated (check_row_sqlite e row st)"
  using assms
  by (cases "scrape_product (e_net e) (p_url row)")
    (auto simp: ids_allocated_def check_row_sqlite_frame check_row_sqlite_history)

lemma ids_allocated_check_single_product:
  assumes "ids_allocated st" and "v_id v < next_id st"
  shows "ids_allocated (check_single_product e v st)"
  using assms
  by (cases "scrape_product (e_net e) (v_url v)")
    (auto simp: ids_allocated_def check_single_product_frame check_single_product_history)

lemma ids_allocated_foldl_sqlite:
  "ids_allocated st \<Longrightarrow> \<forall>row\<in>set rows. p_id row < next_id st \<Longrightarrow>
     ids_allocated (foldl (\<lambda>s row. check_row_sqlite e row s) st rows)"
  by (induction rows arbitrary: st)
    (simp_all add: ids_allocated_check_row_sqlite check_row_sqlite_frame)

lemma ids_allocated_foldl:
  "ids_allocated st \<Longrightarrow> \<forall>v\<in>set vs. v_id v < next_id st \<Longrightarrow>
     ids_allocated (foldl (\<lambda>s v. check_single_product e v s) st vs)"
  by (induction vs arbitrary: st)
    (simp_all add: ids_allocated_check_single_product check_single_product_frame)

lemma ids_allocated_check_prices_sqlite:
  assumes "ids_allocated st"
  shows "ids_allocated (snd (check_prices_sqlite e nulls user_id st))"
proof (cases "list_all (\<lambda>p. \<not> raises_TypeError e nulls p)
    (filter (\<lambda>p. p_user p = user_id) (products st))")
  case True
  have "ids_allocated (foldl (\<lambda>s row. check_row_sqlite e row s) st
      (filter (\<lambda>p. p_user p = user_id) (products st)))"
    using assms by (intro ids_allocated_foldl_sqlite) (auto simp: ids_allocated_def list_all_iff)
  then show ?thesis
    by (simp add: check_prices_sqlite_commits [OF True])
next
  case False
  let ?loop = "for_loop_sqlite e nulls (filter (\<lambda>p. p_user p = user_id) (products st)) st"
  from False have "list_ex (raises_TypeError e nulls)
      (filter (\<lambda>p. p_user p = user_id) (products st))"
    by (auto simp: list_all_iff list_ex_iff)
  from for_loop_sqlite_raises [OF this, of st] obtain st1 where
    loop: "?loop = (Some TypeError, st1)"
    by (cases ?loop) auto
  from for_loop_sqlite_frame [of e nulls "filter (\<lambda>p. p_user p = user_id) (products st)" st]
  have "products st1 = products st \<and> next_id st1 = next_id st"
    by (simp add: loop)
  with assms have "ids_allocated (st1\<lparr>price_history := price_history st\<rparr>)"
    by (simp add: ids_allocated_def)
  then show ?thesis by (simp add: check_prices_sqlite_def loop)
qed

lemma ids_allocated_check_prices:
  assumes "ids_allocated (store ps)"
      and "list_all (\<lambda>v. v_id v < next_id (store ps)) (pending ps)"
  shows "ids_allocated (store (check_prices e user_id ps)) \<and>
         list_all (\<lambda>v. v_id v < next_id (store (check_prices e user_id ps)))
           (pending (check_prices e user_id ps))"
  using assms
  by (auto simp: check_prices_submits get_user_products_def ids_allocated_def list_all_iff)

lemma ids_allocated_complete_task:
  assumes "ids_allocated (store ps)"
      and "list_all (\<lambda>v. v_id v < next_id (store ps)) (pending ps)"
  shows "ids_allocated (store (complete_task e i ps)) \<and>
         list_all (\<lambda>v. v_id v < next_id (store (complete_task e i ps)))
           (pending (complete_task e i ps))"
proof (cases "i < length (pending ps)")
  case True
  then have task: "v_id (pending ps ! i) < next_id (store ps)"
    using assms(2) by (simp add: list_all_length)
  have rest: "set (take i (pending ps) @ drop (Suc i) (pending ps)) \<subseteq> set (pending ps)"
    by (auto dest: in_set_takeD in_set_dropD)
  show ?thesis
    using True assms(2) rest ids_allocated_check_single_product [OF assms(1) task, of e]
    by (auto simp: complete_task_def check_single_product_frame list_all_iff)
next
  case False
  with assms show ?thesis by (simp add: complete_task_def)
qed

text \<open>
  C10. Claimed: every product created by \<^verbatim>\<open>App.add_product\<close> comes with exactly one
  initial price observation, so it has a latest price. In \<^verbatim>\<open>price_tracker_bot.py\<close> the
  product and the observation are written by two calls that each open their own
  connection, and \<^verbatim>\<open>add_price_history\<close> writes nothing when it obtains none: the product is
  then stored with an empty history, and \<^verbatim>\<open>get_user_products\<close> reports its latest price as
  \<^verbatim>\<open>"N/A"\<close>.
\<close>

theorem add_product_lost_observation:
  "map p_id (products lost_connection_state) = [0] \<and>
   price_history lost_connection_state = [] \<and>
   map v_latest_price (get_user_products True first_inserted 1 lost_connection_state) = [None]"
  by (simp add: lost_connection_state_def add_product_def add_product_to_db_def
      add_price_history_def parse_prices_def empty_state_def scrape_shop_phone strip_def
      is_space_def is_digit_def float_of_numeral_def digits_val_def digit_val_def
      get_user_products_def latest_price_def latest_rows_def)

text \<open>
  C10, as amended. In \<^verbatim>\<open>main.py\<close>, \<^verbatim>\<open>App.add_product\<close> either changes nothing and shows an
  error, or stores the product together with exactly one observation, the price of the
  scrape it has just made, which is then the product's latest price. In
  \<^verbatim>\<open>price_tracker_bot.py\<close> the same holds whenever the connection for the history write is
  obtained; when it is not, the product is stored with no observation.
\<close>

theorem add_product_initial_observation:
  assumes "ids_allocated st"
  shows "(add_product_sqlite py_float net now user_id u l h st = (d, st') \<longrightarrow>
            (st' = st \<and> (\<exists>m. d = ShowError m)) \<or>
            (\<exists>name price p.
               scrape_product net (strip u) = Some (name, price) \<and>
               products st' = products st @ [p] \<and>
               p_id p = next_id st \<and> p_user p = user_id \<and> p_url p = strip u \<and>
               filter (\<lambda>r. h_product r = p_id p) (price_history st') =
                 [\<lparr>h_product = p_id p, h_price = price, h_timestamp = now\<rparr>] \<and>
               latest_price tb (p_id p) (price_history st') = Some price)) \<and>
         (add_product py_float net db1 db2 now user_id u l h st = (d2, st2) \<longrightarrow>
            (st2 = st \<and> (\<exists>m. d2 = ShowError m)) \<or>
            (\<exists>name price p.
               scrape_product net (strip u) = Some (name, price) \<and>
               products st2 = products st @ [p] \<and>
               p_id p = next_id st \<and> p_user p = user_id \<and> p_url p = strip u \<and>
               filter (\<lambda>r. h_product r = p_id p) (price_history st2) =
                 (if db2 then [\<lparr>h_product = p_id p, h_price = price, h_timestamp = now\<rparr>]
                  else []) \<and>
               latest_price tb (p_id p) (price_history st2) =
                 (if db2 then Some price else None)))"
proof (intro conjI impI)
  note fresh = fresh_id_no_history [OF assms]
  have newest: "\<And>price. latest_price tb (next_id st)
      (price_history st @ [\<lparr>h_product = next_id st, h_price = price, h_timestamp = now\<rparr>]) =
      Some price"
  proof -
    fix price
    have "\<forall>r\<in>set (price_history st). h_product r = next_id st \<longrightarrow>
        h_timestamp r < h_timestamp \<lparr>h_product = next_id st, h_price = price, h_timestamp = now\<rparr>"
      using fresh by (auto simp: filter_empty_conv)
    from latest_price_newest [OF _ this]
    show "latest_price tb (next_id st)
      (price_history st @ [\<lparr>h_product = next_id st, h_price = price, h_timestamp = now\<rparr>]) =
      Some price" by simp
  qed
  {
    assume "add_product_sqlite py_float net now user_id u l h st = (d, st')"
    from add_product_sqlite_cases [OF this]
    show "(st' = st \<and> (\<exists>m. d = ShowError m)) \<or>
            (\<exists>name price p.
               scrape_product net (strip u) = Some (name, price) \<and>
               products st' = products st @ [p] \<and>
               p_id p = next_id st \<and> p_user p = user_id \<and> p_url p = strip u \<and>
               filter (\<lambda>r. h_product r = p_id p) (price_history st') =
                 [\<lparr>h_product = p_id p, h_price = price, h_timestamp = now\<rparr>] \<and>
               latest_price tb (p_id p) (price_history st') = Some price)"
      using fresh newest by auto
  }
  {
    assume "add_product py_float net db1 db2 now user_id u l h st = (d2, st2)"
    from add_product_cases [OF this]
    show "(st2 = st \<and> (\<exists>m. d2 = ShowError m)) \<or>
            (\<exists>name price p.
               scrape_product net (strip u) = Some (name, price) \<and>
               products st2 = products st @ [p] \<and>
               p_id p = next_id st \<and> p_user p = user_id \<and> p_url p = strip u \<and>
               filter (\<lambda>r. h_product r = p_id p) (price_history st2) =
                 (if db2 then [\<lparr>h_product = p_id p, h_price = price, h_timestamp = now\<rparr>]
                  else []) \<and>
               latest_price tb (p_id p) (price_history st2) =
                 (if db2 then Some price else None))"
      using fresh newest latest_price_none [OF fresh, of tb] by (cases db2) auto
  }
qed

lemma phone_added_sqlite_value:
  "phone_added_sqlite =
     (ShowInfo ''Added Phone X... to tracking list.'',
      \<lparr>products = [phone],
       price_history = [\<lparr>h_product = 0, h_price = 2599 / 2, h_timestamp = 100\<rparr>],
       next_id = 1, notifications = []\<rparr>)"
  by (simp add: phone_added_sqlite_def add_product_sqlite_def parse_prices_def empty_state_def
      scrape_shop_phone strip_def is_space_def is_digit_def float_of_numeral_def digits_val_def
      digit_val_def phone_def)

lemma phone_added_value:
  "phone_added =
     (ShowInfo ''Added Phone X... to tracking list.'',
      \<lparr>products = [phone],
       price_history = [\<lparr>h_product = 0, h_price = 2599 / 2, h_timestamp = 100\<rparr>],
       next_id = 1, notifications = []\<rparr>)"
  by (simp add: phone_added_def add_product_def add_product_to_db_def add_price_history_def
      parse_prices_def empty_state_def scrape_shop_phone strip_def is_space_def is_digit_def
      float_of_numeral_def digits_val_def digit_val_def phone_def)

theorem add_product_initial_observation_witness:
  "ids_allocated empty_state \<and>
   products (snd phone_added_sqlite) = [phone] \<and>
   filter (\<lambda>r. h_product r = 0) (price_history (snd phone_added_sqlite)) =
     [\<lparr>h_product = 0, h_price = 2599 / 2, h_timestamp = 100\<rparr>] \<and>
   latest_price first_inserted 0 (price_history (snd phone_added_sqlite)) = Some (2599 / 2) \<and>
   products (snd phone_added) = [phone] \<and>
   filter (\<lambda>r. h_product r = 0) (price_history (snd phone_added)) =
     [\<lparr>h_product = 0, h_price = 2599 / 2, h_timestamp = 100\<rparr>] \<and>
   latest_price first_inserted 0 (price_history (snd phone_added)) = Some (2599 / 2)"
proof -
  have url: "strip '' https://www.amazon.in/dp/phone '' = ''https://www.amazon.in/dp/phone''"
    by (simp add: strip_def is_space_def)
  have a: "add_product_sqlite float_of_numeral shop_net 100 1
       '' https://www.amazon.in/dp/phone '' ''1000'' [] empty_state =
       (fst phone_added_sqlite, snd phone_added_sqlite)"
    by (simp add: phone_added_sqlite_def)
  have b: "add_product float_of_numeral shop_net True True 100 1
       '' https://www.amazon.in/dp/phone '' ''1000'' [] empty_state =
       (fst phone_added, snd phone_added)"
    by (simp add: phone_added_def)
  have changed: "snd phone_added_sqlite \<noteq> empty_state" "snd phone_added \<noteq> empty_state"
    by (simp_all add: phone_added_sqlite_value phone_added_value empty_state_def)
  have start: "next_id empty_state = 0" "products empty_state = []"
    by (simp_all add: empty_state_def)
  from add_product_initial_observation [OF ids_allocated_empty, of float_of_numeral shop_net
      100 1 "'' https://www.amazon.in/dp/phone ''" "''1000''" "[]" "fst phone_added_sqlite"
      "snd phone_added_sqlite" first_inserted True True "fst phone_added" "snd phone_added"]
    a b changed
  show ?thesis
    unfolding url scrape_shop_phone start
    by (auto simp: ids_allocated_empty phone_added_sqlite_value phone_added_value)
qed

text \<open>
  C8. Claimed: a product's URL is unique per user, and two users may each track the same
  URL. That is what \<^verbatim>\<open>price_tracker_bot.py\<close> does. In \<^verbatim>\<open>main.py\<close> the column is declared
  \<^verbatim>\<open>url TEXT UNIQUE NOT NULL\<close>, unique over the whole table: when user 1 tracks an URL,
  user 2 cannot add it.
\<close>

theorem add_product_sqlite_second_user:
  "map p_user (products one_user_state) = [1] \<and>
   add_product_sqlite float_of_numeral shop_net 200 2
     ''https://www.amazon.in/dp/phone'' ''900'' [] one_user_state =
     (ShowError ''This URL is already being tracked.'', one_user_state)"
  by (simp add: add_product_sqlite_def parse_prices_def one_user_state_def phone_def
      scrape_shop_phone strip_def is_space_def is_digit_def float_of_numeral_def digits_val_def
      digit_val_def)

text \<open>
  C8, as amended. In \<^verbatim>\<open>price_tracker_bot.py\<close> the URL is unique per user: adding an URL the
  same user already tracks fails and leaves the store unchanged, and two different users
  who do not track it yet can both add it. In \<^verbatim>\<open>main.py\<close> the URL is unique over all
  users: adding an URL that any user already tracks fails and leaves the store unchanged.
\<close>

theorem url_uniqueness:
  "(list_ex (\<lambda>p. p_user p = user_id \<and> p_url p = url) (products st) \<longrightarrow>
      add_product_to_db db user_id url name low high st = (None, st)) \<and>
   (list_ex (\<lambda>p. p_user p = user_id \<and> p_url p = strip u) (products st) \<longrightarrow>
      snd (add_product py_float net db1 db2 now user_id u l h st) = st) \<and>
   (user_a \<noteq> user_b \<and>
    \<not> list_ex (\<lambda>p. p_user p = user_a \<and> p_url p = url) (products st) \<and>
    \<not> list_ex (\<lambda>p. p_user p = user_b \<and> p_url p = url) (products st) \<longrightarrow>
      (\<exists>id_a id_b st1 st2.
         add_product_to_db True user_a url name low high st = (Some id_a, st1) \<and>
         add_product_to_db True user_b url name' low' high' st1 = (Some id_b, st2) \<and>
         id_a \<noteq> id_b \<and>
         map (\<lambda>p. (p_id p, p_user p, p_url p)) (products st2) =
           map (\<lambda>p. (p_id p, p_user p, p_url p)) (products st) @
             [(id_a, user_a, url), (id_b, user_b, url)])) \<and>
   (list_ex (\<lambda>p. p_url p = strip u) (products st) \<longrightarrow>
      snd (add_product_sqlite py_float net now user_id u l h st) = st \<and>
      (\<exists>m. fst (add_product_sqlite py_float net now user_id u l h st) = ShowError m))"
proof (intro conjI impI)
  assume "list_ex (\<lambda>p. p_user p = user_id \<and> p_url p = url) (products st)"
  then show "add_product_to_db db user_id url name low high st = (None, st)"
    by (simp add: add_product_to_db_def)
next
  assume "list_ex (\<lambda>p. p_user p = user_id \<and> p_url p = strip u) (products st)"
  then show "snd (add_product py_float net db1 db2 now user_id u l h st) = st"
    by (auto simp: add_product_def add_product_to_db_def Let_def
        split: option.splits prod.splits)
next
  assume "user_a \<noteq> user_b \<and>
    \<not> list_ex (\<lambda>p. p_user p = user_a \<and> p_url p = url) (products st) \<and>
    \<not> list_ex (\<lambda>p. p_user p = user_b \<and> p_url p = url) (products st)"
  then show "\<exists>id_a id_b st1 st2.
         add_product_to_db True user_a url name low high st = (Some id_a, st1) \<and>
         add_product_to_db True user_b url name' low' high' st1 = (Some id_b, st2) \<and>
         id_a \<noteq> id_b \<and>
         map (\<lambda>p. (p_id p, p_user p, p_url p)) (products st2) =
           map (\<lambda>p. (p_id p, p_user p, p_url p)) (products st) @
             [(id_a, user_a, url), (id_b, user_b, url)]"
    by (simp add: add_product_to_db_def)
next
  assume dup: "list_ex (\<lambda>p. p_url p = strip u) (products st)"
  then show "snd (add_product_sqlite py_float net now user_id u l h st) = st"
    by (auto simp: add_product_sqlite_def Let_def split: option.splits prod.splits)
  from dup show "\<exists>m. fst (add_product_sqlite py_float net now user_id u l h st) = ShowError m"
    by (auto simp: add_product_sqlite_def Let_def split: option.splits prod.splits)
qed

theorem url_uniqueness_witness:
  "list_ex (\<lambda>p. p_user p = 1 \<and> p_url p = ''https://www.amazon.in/dp/phone'')
     (products one_user_state) \<and>
   add_product_to_db True 1 ''https://www.amazon.in/dp/phone'' ''Phone X'' 900 0
     one_user_state = (None, one_user_state) \<and>
   fst (add_product_to_db True 2 ''https://www.amazon.in/dp/phone'' ''Phone X'' 900 0
          (snd (add_product_to_db True 1 ''https://www.amazon.in/dp/phone'' ''Phone X'' 1000 0
                  empty_state))) = Some 1 \<and>
   snd (add_product_sqlite float_of_numeral shop_net 200 1
          ''https://www.amazon.in/dp/phone'' ''900'' [] one_user_state) = one_user_state"
proof -
  have url: "strip ''https://www.amazon.in/dp/phone'' = ''https://www.amazon.in/dp/phone''"
    by (simp add: strip_def is_space_def)
  have tracked: "list_ex (\<lambda>p. p_user p = 1 \<and> p_url p = ''https://www.amazon.in/dp/phone'')
     (products one_user_state)"
    "list_ex (\<lambda>p. p_url p = ''https://www.amazon.in/dp/phone'') (products one_user_state)"
    by (simp_all add: one_user_state_def phone_def)
  have untracked: "products empty_state = []" "next_id empty_state = 0"
    by (simp_all add: empty_state_def)
  from url_uniqueness [where st = one_user_state and user_id = 1
      and url = "''https://www.amazon.in/dp/phone''" and u = "''https://www.amazon.in/dp/phone''"
      and db = True and name = "''Phone X''" and low = 900 and high = 0
      and py_float = float_of_numeral and net = shop_net and now = 200 and l = "''900''"
      and h = "[]"]
    url_uniqueness [where st = empty_state and user_a = 1 and user_b = 2
      and url = "''https://www.amazon.in/dp/phone''" and name = "''Phone X''" and low = 1000
      and high = 0 and name' = "''Phone X''" and low' = 900 and high' = 0]
    tracked
  show ?thesis
    unfolding url untracked
    by (auto simp: add_product_to_db_def untracked)
qed


end
